theory Spec2Isabelle
  imports
    Main
    "HOL-Library.Word"
    "HOL-Library.Char_ord"
    "HOL-Library.List_Lexorder"
    "HOL-Library.Product_Lexorder"
    "HOL-Library.Multiset"
begin

section \<open>Errors shared by the resolver and the dialer\<close>

text \<open>
  Go errors are values. An error handed over by a collaborator (the DNS resolver, the
  connection-name parser, the metadata provider, the network) is opaque and carries its
  message. \<open>fmt.Errorf\<close> with one string argument, and with a string and an error
  argument, keeps the format string of the source together with its arguments.
  \<open>errtypes.NewDialError(reason, cn, err)\<close> keeps its three arguments.
\<close>

datatype error =
    ExternalError string
  | Errorf1 string string
  | Errorf2 string string error
  | DialError string string error

section \<open>The name resolver (package cloudsql, DNSInstanceConnectionNameResolver)\<close>

subsection \<open>Data\<close>

text \<open>\<open>instance.ConnName\<close>: the parsed connection name.\<close>

record ConnName =
  project :: string
  region :: string
  name :: string

text \<open>\<open>net.SRV\<close>: the four fields of a DNS SRV record; the ports are \<open>uint16\<close>.\<close>

record SRV =
  Target :: string
  Port :: "16 word"
  Priority :: "16 word"
  Weight :: "16 word"

text \<open>
  The collaborators of the resolver during one call: \<open>instance.ParseConnName\<close>, which is
  not part of the resolver's source and is used as a black box, and the \<open>netResolver\<close>
  interface with its single method \<open>LookupSRV(ctx, service, proto, name)\<close>, which returns
  a canonical name, the records and an error that may be present together with records.
\<close>

record resolverEnv =
  ParseConnName :: "string \<Rightarrow> error + ConnName"
  LookupSRV :: "string \<Rightarrow> string \<Rightarrow> string \<Rightarrow> string \<times> SRV list \<times> error option"

text \<open>The log of the SRV queries sent so far: service, proto and name of each.\<close>

type_synonym dnsLog = "(string \<times> string \<times> string) list"

subsection \<open>Sorting and trimming\<close>

text \<open>
  The comparison closure given to \<open>sort.Slice\<close>. Go compares strings byte by byte, which
  is the lexicographic order on \<open>char list\<close> with characters ordered by their code.
\<close>

definition srvLess :: "SRV \<Rightarrow> SRV \<Rightarrow> bool" where
  "srvLess a b =
     (if Priority a = Priority b then Target a < Target b
      else Priority a < Priority b)"

text \<open>
  \<open>sort.Slice\<close> sorts by the given comparison and is not stable. It is modelled by an
  insertion sort by the same comparison. Records that the comparison does not order have
  the same priority and the same target, and \<open>queryDNS\<close> reads nothing but the target
  after sorting, so every sorted arrangement visits the same targets in the same order
  (lemma \<open>sorted_arrangement_targets\<close> below).
\<close>

fun insertSlice :: "('a \<Rightarrow> 'a \<Rightarrow> bool) \<Rightarrow> 'a \<Rightarrow> 'a list \<Rightarrow> 'a list" where
  "insertSlice lt x [] = [x]"
| "insertSlice lt x (y # ys) =
     (if lt y x then y # insertSlice lt x ys else x # y # ys)"

definition sortSlice :: "('a \<Rightarrow> 'a \<Rightarrow> bool) \<Rightarrow> 'a list \<Rightarrow> 'a list" where
  "sortSlice lt xs = foldr (insertSlice lt) xs []"

text \<open>\<open>strings.TrimRight(s, cutset)\<close>: drop every trailing character that is in the cutset.\<close>

definition TrimRight :: "string \<Rightarrow> string \<Rightarrow> string" where
  "TrimRight s cutset = rev (dropWhile (\<lambda>c. c \<in> set cutset) (rev s))"

subsection \<open>queryDNS and Lookup\<close>

text \<open>
  The \<open>for _, record := range records\<close> loop of \<open>queryDNS\<close>. It either returns from
  \<open>queryDNS\<close> with the first connection name that parses, or runs to the end and leaves
  the variable \<open>perr\<close> behind.
\<close>

datatype loopResult = Returned ConnName | Exhausted "error option"

fun parseRecords :: "resolverEnv \<Rightarrow> string \<Rightarrow> SRV list \<Rightarrow> error option \<Rightarrow> loopResult" where
  "parseRecords env domainName [] perr = Exhausted perr"
| "parseRecords env domainName (record # rest) perr =
     (let target = TrimRight (Target record) ''.'' in
      case ParseConnName env target of
        Inl parseErr \<Rightarrow>
          parseRecords env domainName rest
            (Some (Errorf2 ''unable to parse SRV for %q: %v'' domainName parseErr))
      | Inr cn \<Rightarrow> Returned cn)"

definition queryDNS :: "resolverEnv \<Rightarrow> string \<Rightarrow> dnsLog \<Rightarrow> (error + ConnName) \<times> dnsLog" where
  "queryDNS env domainName log =
     (case LookupSRV env [] [] domainName of
        (cname, records, err) \<Rightarrow>
          (let log' = log @ [([], [], domainName)];
               records' = sortSlice srvLess records
           in (case parseRecords env domainName records' None of
                 Returned cn \<Rightarrow> (Inr cn, log')
               | Exhausted perr \<Rightarrow>
                   (case err of
                      Some e \<Rightarrow>
                        (Inl (Errorf2 ''unable to resolve SRV record for %q: %v'' domainName e),
                         log')
                    | None \<Rightarrow>
                        (case perr of
                           Some pe \<Rightarrow> (Inl pe, log')
                         | None \<Rightarrow>
                             (Inl (Errorf1 ''no valid SRV records found for %q'' domainName),
                              log'))))))"

definition Lookup :: "resolverEnv \<Rightarrow> string \<Rightarrow> dnsLog \<Rightarrow> (error + ConnName) \<times> dnsLog" where
  "Lookup env icn log =
     (case ParseConnName env icn of
        Inl err \<Rightarrow>
          (case queryDNS env icn log of
             (Inl err', log') \<Rightarrow> (Inl err', log')
           | (Inr cn, log') \<Rightarrow> (Inr cn, log'))
      | Inr cn \<Rightarrow> (Inr cn, log))"

subsection \<open>A concrete parser and concrete resolvers\<close>

text \<open>
  Modelled from the spec: \<open>instance.ParseConnName\<close>, whose source is not part of the
  resolver. A string parses when it has exactly three colon-separated, non-empty
  segments: project, region and name.
\<close>

fun splitOn :: "char \<Rightarrow> string \<Rightarrow> string list" where
  "splitOn c [] = [[]]"
| "splitOn c (x # xs) =
     (if x = c then [] # splitOn c xs
      else (case splitOn c xs of
              [] \<Rightarrow> [[x]]
            | s # ss \<Rightarrow> (x # s) # ss))"

definition parseThreeSegments :: "string \<Rightarrow> error + ConnName" where
  "parseThreeSegments s =
     (case splitOn CHR '':'' s of
        [p, r, n] \<Rightarrow>
          (if p \<noteq> [] \<and> r \<noteq> [] \<and> n \<noteq> []
           then Inr \<lparr>project = p, region = r, name = n\<rparr>
           else Inl (ExternalError s))
      | _ \<Rightarrow> Inl (ExternalError s))"

definition srv :: "16 word \<Rightarrow> string \<Rightarrow> SRV" where
  "srv p t = \<lparr>Target = t, Port = 3307, Priority = p, Weight = 0\<rparr>"

definition fixedResolver :: "SRV list \<Rightarrow> error option \<Rightarrow> resolverEnv" where
  "fixedResolver records err =
     \<lparr>ParseConnName = parseThreeSegments,
      LookupSRV = (\<lambda>service proto name. ([], records, err))\<rparr>"

subsection \<open>The order the spec describes\<close>

text \<open>
  A record parses when its target, without its trailing dots, is a connection name.
  \<open>srvOrder\<close> is the order of the spec's words: ascending by priority, and for equal
  priority ascending lexicographically by target. \<open>srvKey\<close> is the pair the order
  compares.
\<close>

definition parses :: "resolverEnv \<Rightarrow> SRV \<Rightarrow> bool" where
  "parses env r = (\<not> isl (ParseConnName env (TrimRight (Target r) ''.'')))"

definition srvOrder :: "SRV \<Rightarrow> SRV \<Rightarrow> bool" where
  "srvOrder a b =
     (Priority a < Priority b \<or> (Priority a = Priority b \<and> Target a \<le> Target b))"

definition srvKey :: "SRV \<Rightarrow> 16 word \<times> string" where
  "srvKey r = (Priority r, Target r)"

section \<open>The dialer (package cloudsqlconn)\<close>

subsection \<open>Data\<close>

text \<open>
  Modelled from the spec: the IP selection mode of \<open>cloudsql\<close> (public, private), and the
  metadata provider \<open>cloudsql.Instance\<close>, whose source is not part of the dialer. A provider
  is an object with an identity (\<open>ptr\<close>) and a stable string identity (\<open>String\<close>); its
  methods \<open>ConnectInfo\<close> and \<open>ForceRefresh\<close> are collaborators below.
\<close>

datatype ipType = PublicIP | PrivateIP

record Instance =
  ptr :: nat
  String :: string

datatype tlsConfig = TLSConfig string

text \<open>
  A \<open>net.Conn\<close>: a \<open>*net.TCPConn\<close>, some other connection, or the \<open>*tls.Conn\<close> that
  \<open>tls.Client(conn, tlsCfg)\<close> wraps around a connection.
\<close>

datatype conn = TCPConn nat | OtherConn nat | TLSClient conn tlsConfig

fun isTCPConn :: "conn \<Rightarrow> bool" where
  "isTCPConn (TCPConn n) = True"
| "isTCPConn c = False"

text \<open>\<open>dialCfg\<close>; \<open>time.Duration\<close> is an \<open>int64\<close> of nanoseconds.\<close>

record dialCfg =
  ipType :: ipType
  tcpKeepAlive :: "64 word"

type_synonym DialOption = "dialCfg \<Rightarrow> dialCfg"

definition defaultTCPKeepAlive :: "64 word" where
  "defaultTCPKeepAlive = 30 * 1000000000"

definition serverProxyPort :: string where
  "serverProxyPort = ''3307''"

text \<open>
  Goroutines started with \<open>go\<close> run at some later time, in any order. The two closures the
  dialer starts are kept as data: the bookkeeping of a successful dial (the counter
  increment and the latency metric) and the \<open>closeFunc\<close> of an instrumented connection
  (the counter decrement).
\<close>

datatype task = DialBookkeeping string int | CloseFunc string

text \<open>
  Every call to a collaborator and every trace span is recorded, in order. The record is
  not a field of the Go \<open>Dialer\<close>; it makes the effects of a call visible.
\<close>

datatype event =
    StartSpan string "string list"
  | EndSpan string "error option"
  | NewInstanceCall string "error + Instance"
  | ConnectInfoCall Instance ipType
  | DialFuncCall string string
  | ForceRefreshCall Instance
  | SetKeepAliveCall conn bool
  | SetKeepAlivePeriodCall conn "64 word"
  | HandshakeCall conn
  | CloseCall conn
  | RecordDialLatency string string int

text \<open>
  The \<open>Dialer\<close>: the registry \<open>instances\<close> (guarded by \<open>lock\<close>), the counters \<open>openConns\<close>
  (an \<open>int64\<close> each, guarded by \<open>mu\<close>), the default dial configuration and the dialer's
  identity. The handles \<open>key\<close>, \<open>sqladmin\<close>, \<open>iamTokenSource\<close>, \<open>metrics\<close> and \<open>done\<close> are
  only passed on to collaborators. \<open>events\<close> is the record of effects and \<open>tasks\<close> the
  goroutines started and not yet run.
\<close>

record Dialer =
  instances :: "string \<rightharpoonup> Instance"
  openConns :: "string \<rightharpoonup> 64 word"
  defaultDialCfg :: dialCfg
  dialerID :: string
  events :: "event list"
  tasks :: "task list"

text \<open>\<open>instrumentedConn\<close>: the embedded \<open>net.Conn\<close> and the \<open>closeFunc\<close>.\<close>

record instrumentedConn =
  Conn :: conn
  closeFunc :: task

text \<open>
  The outcomes of the collaborators during one call: \<open>cloudsql.NewInstance\<close>, the
  provider's \<open>ConnectInfo\<close>, the dialer's \<open>dialFunc\<close>, the methods of the connection, and
  the milliseconds \<open>time.Since(startTime)\<close> measures. Successive calls may be given
  different outcomes.
\<close>

record dialEnv =
  NewInstance :: "string \<Rightarrow> error + Instance"
  ConnectInfo :: "Instance \<Rightarrow> ipType \<Rightarrow> error + (string \<times> tlsConfig)"
  dialFunc :: "string \<Rightarrow> string \<Rightarrow> error + conn"
  SetKeepAlive :: "conn \<Rightarrow> bool \<Rightarrow> error option"
  SetKeepAlivePeriod :: "conn \<Rightarrow> 64 word \<Rightarrow> error option"
  Handshake :: "conn \<Rightarrow> error option"
  connClose :: "conn \<Rightarrow> error option"
  Since :: int

subsection \<open>Helpers\<close>

definition record_events :: "Dialer \<Rightarrow> event list \<Rightarrow> Dialer" where
  "record_events d es = d\<lparr>events := events d @ es\<rparr>"

text \<open>Reading a Go map at a missing key gives the zero value.\<close>

definition openConnsAt :: "Dialer \<Rightarrow> string \<Rightarrow> 64 word" where
  "openConnsAt d k = (case openConns d k of None \<Rightarrow> 0 | Some n \<Rightarrow> n)"

text \<open>\<open>net.JoinHostPort\<close>: a host with a colon is put in brackets.\<close>

definition JoinHostPort :: "string \<Rightarrow> string \<Rightarrow> string" where
  "JoinHostPort host port =
     (if CHR '':'' \<in> set host then ''['' @ host @ '']:'' @ port
      else host @ '':'' @ port)"

definition spanDial :: string where
  "spanDial = ''cloud.google.com/go/cloudsqlconn.Dial''"

definition spanInstanceInfo :: string where
  "spanInstanceInfo = ''cloud.google.com/go/cloudsqlconn/internal.InstanceInfo''"

definition spanConnect :: string where
  "spanConnect = ''cloud.google.com/go/cloudsqlconn/internal.Connect''"

subsection \<open>The registry: Dialer.instance\<close>

text \<open>
  The section of \<open>Dialer.instance\<close> that runs under the write lock: the re-check, the
  construction and the insertion. It is atomic with respect to every other access to the
  registry.
\<close>

definition Dialer_instance_locked ::
    "dialEnv \<Rightarrow> Dialer \<Rightarrow> string \<Rightarrow> (error + Instance) \<times> Dialer" where
  "Dialer_instance_locked env d connName =
     (case instances d connName of
        Some i \<Rightarrow> (Inr i, d)
      | None \<Rightarrow>
          (case NewInstance env connName of
             Inl err \<Rightarrow> (Inl err, record_events d [NewInstanceCall connName (Inl err)])
           | Inr i \<Rightarrow>
               (Inr i,
                record_events (d\<lparr>instances := (instances d)(connName \<mapsto> i)\<rparr>)
                  [NewInstanceCall connName (Inr i)])))"

text \<open>
  \<open>Dialer.instance\<close> run without any other goroutine in between: the check under the
  read lock, then the locked section when the entry is missing.
\<close>

definition Dialer_instance ::
    "dialEnv \<Rightarrow> Dialer \<Rightarrow> string \<Rightarrow> (error + Instance) \<times> Dialer" where
  "Dialer_instance env d connName =
     (case instances d connName of
        Some i \<Rightarrow> (Inr i, d)
      | None \<Rightarrow> Dialer_instance_locked env d connName)"

subsection \<open>Dial\<close>

text \<open>
  The block \<open>if c, ok := conn.(*net.TCPConn); ok { ... }\<close> of \<open>Dial\<close>: the error it
  returns from \<open>Dial\<close> with, if any.
\<close>

definition setKeepAlives ::
    "dialEnv \<Rightarrow> dialCfg \<Rightarrow> Instance \<Rightarrow> conn \<Rightarrow> Dialer \<Rightarrow> error option \<times> Dialer" where
  "setKeepAlives env cfg i c d =
     (if isTCPConn c then
        (case SetKeepAlive env c True of
           Some err \<Rightarrow>
             (Some (DialError ''failed to set keep-alive'' (String i) err),
              record_events d [SetKeepAliveCall c True])
         | None \<Rightarrow>
             (case SetKeepAlivePeriod env c (tcpKeepAlive cfg) of
                Some err \<Rightarrow>
                  (Some (DialError ''failed to set keep-alive period'' (String i) err),
                   record_events d
                     [SetKeepAliveCall c True, SetKeepAlivePeriodCall c (tcpKeepAlive cfg)])
              | None \<Rightarrow>
                  (None,
                   record_events d
                     [SetKeepAliveCall c True, SetKeepAlivePeriodCall c (tcpKeepAlive cfg)])))
      else (None, d))"

text \<open>The loop \<open>for _, opt := range opts { opt(&cfg) }\<close> over a copy of the defaults.\<close>

definition applyDialOptions :: "DialOption list \<Rightarrow> dialCfg \<Rightarrow> dialCfg" where
  "applyDialOptions opts cfg = fold (\<lambda>opt c. opt c) opts cfg"

text \<open>
  \<open>Dial\<close>. The deferred \<open>endDial(err)\<close> and \<open>connectEnd(err)\<close> read the named result
  \<open>err\<close> when \<open>Dial\<close> returns, the later deferred one first.
\<close>

definition Dial ::
    "dialEnv \<Rightarrow> Dialer \<Rightarrow> string \<Rightarrow> DialOption list \<Rightarrow> (error + instrumentedConn) \<times> Dialer" where
  "Dial env d inst opts =
     (let d1 = record_events d [StartSpan spanDial [inst, dialerID d]];
          cfg = applyDialOptions opts (defaultDialCfg d);
          d2 = record_events d1 [StartSpan spanInstanceInfo []]
      in case Dialer_instance env d2 inst of
           (Inl err, d3) \<Rightarrow>
             (Inl err,
              record_events d3 [EndSpan spanInstanceInfo (Some err), EndSpan spanDial (Some err)])
         | (Inr i, d3) \<Rightarrow>
             (case ConnectInfo env i (ipType cfg) of
                Inl err \<Rightarrow>
                  (Inl err,
                   record_events d3
                     [ConnectInfoCall i (ipType cfg),
                      EndSpan spanInstanceInfo (Some err), EndSpan spanDial (Some err)])
              | Inr (addr, tlsCfg) \<Rightarrow>
                  (let d4 = record_events d3
                         [ConnectInfoCall i (ipType cfg),
                          EndSpan spanInstanceInfo None, StartSpan spanConnect []];
                       addr' = JoinHostPort addr serverProxyPort;
                       d5 = record_events d4 [DialFuncCall ''tcp'' addr']
                   in case dialFunc env ''tcp'' addr' of
                        Inl err \<Rightarrow>
                          (let e = DialError ''failed to dial'' (String i) err
                           in (Inl e,
                               record_events d5
                                 [ForceRefreshCall i,
                                  EndSpan spanConnect (Some e), EndSpan spanDial (Some e)]))
                      | Inr c \<Rightarrow>
                          (case setKeepAlives env cfg i c d5 of
                             (Some e, d6) \<Rightarrow>
                               (Inl e,
                                record_events d6
                                  [EndSpan spanConnect (Some e), EndSpan spanDial (Some e)])
                           | (None, d6) \<Rightarrow>
                               (let tlsConn = TLSClient c tlsCfg;
                                    d7 = record_events d6 [HandshakeCall tlsConn]
                                in case Handshake env tlsConn of
                                     Some err \<Rightarrow>
                                       (let e = DialError ''handshake failed'' (String i) err
                                        in (Inl e,
                                            record_events d7
                                              [ForceRefreshCall i, CloseCall tlsConn,
                                               EndSpan spanConnect (Some e),
                                               EndSpan spanDial (Some e)]))
                                   | None \<Rightarrow>
                                       (let latency = Since env;
                                            d8 = d7\<lparr>tasks := tasks d7 @ [DialBookkeeping inst latency]\<rparr>
                                        in (Inr \<lparr>Conn = tlsConn, closeFunc = CloseFunc inst\<rparr>,
                                            record_events d8
                                              [EndSpan spanConnect None,
                                               EndSpan spanDial None])))))))"

subsection \<open>The instrumented connection and the goroutines\<close>

text \<open>\<open>instrumentedConn.Close\<close>: \<open>go i.closeFunc()\<close> starts the closure, it does not run it.\<close>

definition instrumentedConn_Close ::
    "dialEnv \<Rightarrow> instrumentedConn \<Rightarrow> Dialer \<Rightarrow> error option \<times> Dialer" where
  "instrumentedConn_Close env i d =
     (let d1 = record_events d [CloseCall (Conn i)]
      in case connClose env (Conn i) of
           Some err \<Rightarrow> (Some err, d1)
         | None \<Rightarrow> (None, d1\<lparr>tasks := tasks d1 @ [closeFunc i]\<rparr>))"

text \<open>The bodies of the two closures, each run under \<open>mu\<close>.\<close>

fun runTask :: "task \<Rightarrow> Dialer \<Rightarrow> Dialer" where
  "runTask (DialBookkeeping inst latency) d =
     record_events (d\<lparr>openConns := (openConns d)(inst \<mapsto> openConnsAt d inst + 1)\<rparr>)
       [RecordDialLatency inst (dialerID d) latency]"
| "runTask (CloseFunc inst) d =
     d\<lparr>openConns := (openConns d)(inst \<mapsto> openConnsAt d inst - 1)\<rparr>"

text \<open>The scheduler picks any started goroutine: the one at position \<open>k\<close>.\<close>

definition runTaskAt :: "nat \<Rightarrow> Dialer \<Rightarrow> Dialer" where
  "runTaskAt k d =
     (if k < length (tasks d)
      then runTask (tasks d ! k) (d\<lparr>tasks := take k (tasks d) @ drop (Suc k) (tasks d)\<rparr>)
      else d)"

text \<open>
  What a dialer can go through: goroutines entering the locked section of the registry,
  whole calls of \<open>Dial\<close> and of \<open>Close\<close> on a connection, and started goroutines being
  run, in any order and with any outcomes of the collaborators.
\<close>

inductive run :: "Dialer \<Rightarrow> Dialer \<Rightarrow> bool" where
  run_refl: "run d d"
| run_locked: "run d d1 \<Longrightarrow> run d (snd (Dialer_instance_locked env d1 connName))"
| run_Dial: "run d d1 \<Longrightarrow> run d (snd (Dial env d1 inst opts))"
| run_Close: "run d d1 \<Longrightarrow> run d (snd (instrumentedConn_Close env ic d1))"
| run_task: "run d d1 \<Longrightarrow> run d (runTaskAt k d1)"

text \<open>The providers constructed for a connection name, in the order of construction.\<close>

fun constructed :: "string \<Rightarrow> event list \<Rightarrow> Instance list" where
  "constructed n [] = []"
| "constructed n (NewInstanceCall m (Inr i) # es) =
     (if m = n then i # constructed n es else constructed n es)"
| "constructed n (e # es) = constructed n es"

definition registryOK :: "string \<Rightarrow> Dialer \<Rightarrow> bool" where
  "registryOK n d =
     (constructed n (events d) = (case instances d n of None \<Rightarrow> [] | Some i \<Rightarrow> [i]))"

fun isForceRefresh :: "event \<Rightarrow> bool" where
  "isForceRefresh (ForceRefreshCall i) = True"
| "isForceRefresh e = False"

fun isDialFunc :: "event \<Rightarrow> bool" where
  "isDialFunc (DialFuncCall network addr) = True"
| "isDialFunc e = False"

fun isConnectInfo :: "event \<Rightarrow> bool" where
  "isConnectInfo (ConnectInfoCall i t) = True"
| "isConnectInfo e = False"

fun isClose :: "event \<Rightarrow> bool" where
  "isClose (CloseCall c) = True"
| "isClose e = False"

text \<open>The effects a call added: the events after those of the state it started in.\<close>

definition newEvents :: "Dialer \<Rightarrow> Dialer \<Rightarrow> event list" where
  "newEvents d d' = drop (length (events d)) (events d')"

subsection \<open>Dial with the scheduler\<close>











subsection \<open>A concrete dialer and concrete collaborators\<close>

definition freshDialer :: Dialer where
  "freshDialer =
     \<lparr>instances = Map.empty, openConns = Map.empty,
      defaultDialCfg = \<lparr>ipType = PublicIP, tcpKeepAlive = defaultTCPKeepAlive\<rparr>,
      dialerID = ''dialer-1'', events = [], tasks = []\<rparr>"

definition db1 :: Instance where
  "db1 = \<lparr>ptr = 1, String = ''p:r:i''\<rparr>"

definition goodEnv :: dialEnv where
  "goodEnv =
     \<lparr>NewInstance = (\<lambda>n. Inr \<lparr>ptr = 1, String = n\<rparr>),
      ConnectInfo = (\<lambda>i t. Inr (''10.0.0.1'', TLSConfig (String i))),
      dialFunc = (\<lambda>network addr. Inr (TCPConn 7)),
      SetKeepAlive = (\<lambda>c b. None),
      SetKeepAlivePeriod = (\<lambda>c p. None),
      Handshake = (\<lambda>c. None),
      connClose = (\<lambda>c. None),
      Since = 12\<rparr>"

definition failingEnv :: "string \<Rightarrow> dialEnv" where
  "failingEnv stage =
     goodEnv
       \<lparr>NewInstance :=
          (\<lambda>n. if stage = ''NewInstance'' then Inl (ExternalError ''no admin client'')
                else NewInstance goodEnv n),
        ConnectInfo :=
          (\<lambda>i t. if stage = ''ConnectInfo'' then Inl (ExternalError ''refresh failed'')
                  else ConnectInfo goodEnv i t),
        dialFunc :=
          (\<lambda>network addr. if stage = ''dialFunc'' then Inl (ExternalError ''connection refused'')
                           else dialFunc goodEnv network addr),
        SetKeepAlive :=
          (\<lambda>c b. if stage = ''SetKeepAlive'' then Some (ExternalError ''not supported'')
                  else None),
        SetKeepAlivePeriod :=
          (\<lambda>c p. if stage = ''SetKeepAlivePeriod'' then Some (ExternalError ''invalid period'')
                  else None),
        Handshake :=
          (\<lambda>c. if stage = ''Handshake'' then Some (ExternalError ''bad certificate'')
                else None),
        connClose :=
          (\<lambda>c. if stage = ''Close'' then Some (ExternalError ''broken pipe'') else None)\<rparr>"

definition conn1 :: instrumentedConn where
  "conn1 = \<lparr>Conn = TLSClient (TCPConn 7) (TLSConfig ''p:r:i''), closeFunc = CloseFunc ''p:r:i''\<rparr>"

definition otherEnv :: dialEnv where
  "otherEnv = goodEnv\<lparr>NewInstance := (\<lambda>n. Inr \<lparr>ptr = 2, String = n\<rparr>)\<rparr>"

definition registered :: Dialer where
  "registered = snd (Dialer_instance_locked goodEnv freshDialer ''p:r:i'')"




section \<open>Properties\<close>

subsection \<open>The resolver: sorting\<close>

lemma not_srvLess: "(\<not> srvLess b a) = srvOrder a b"
  by (auto simp: srvLess_def srvOrder_def)

lemma srvOrder_trans: "srvOrder a b \<Longrightarrow> srvOrder b c \<Longrightarrow> srvOrder a c"
  by (auto simp: srvOrder_def)

lemma mset_insertSlice: "mset (insertSlice lt x xs) = add_mset x (mset xs)"
  by (induction xs) auto

lemma mset_sortSlice: "mset (sortSlice lt xs) = mset xs"
  by (induction xs) (auto simp: sortSlice_def mset_insertSlice)

lemma set_insertSlice: "set (insertSlice lt x xs) = insert x (set xs)"
  by (induction xs) auto

lemma sorted_insertSlice:
  "sorted_wrt srvOrder xs \<Longrightarrow> sorted_wrt srvOrder (insertSlice srvLess x xs)"
proof (induction xs)
  case Nil
  then show ?case by simp
next
  case (Cons y ys)
  show ?case
  proof (cases "srvLess y x")
    case True
    then have "srvOrder y x" by (auto simp: srvLess_def srvOrder_def split: if_splits)
    with Cons True show ?thesis by (auto simp: set_insertSlice)
  next
    case False
    then have xy: "srvOrder x y" by (simp add: not_srvLess)
    with Cons False show ?thesis by (auto intro: srvOrder_trans)
  qed
qed

lemma sorted_sortSlice: "sorted_wrt srvOrder (sortSlice srvLess xs)"
  by (induction xs) (auto simp: sortSlice_def intro: sorted_insertSlice[unfolded sortSlice_def])

lemma sortSlice_Nil_iff: "sortSlice lt xs = [] \<longleftrightarrow> xs = []"
  using mset_sortSlice[of lt xs] by (metis mset_zero_iff)

subsection \<open>The resolver: the loop and the result\<close>

lemma parseRecords_find:
  "parseRecords env dn rs perr =
     (case find (parses env) rs of
        Some r \<Rightarrow> Returned (projr (ParseConnName env (TrimRight (Target r) ''.'')))
      | None \<Rightarrow>
          Exhausted
            (if rs = [] then perr
             else Some (Errorf2 ''unable to parse SRV for %q: %v'' dn
                    (projl (ParseConnName env (TrimRight (Target (last rs)) ''.''))))))"
proof (induction rs arbitrary: perr)
  case Nil
  then show ?case by simp
next
  case (Cons r rs)
  show ?case
  proof (cases "ParseConnName env (TrimRight (Target r) ''.'')")
    case (Inl e)
    then show ?thesis
      using Cons.IH by (cases "rs = []") (simp_all add: parses_def split: option.splits)
  next
    case (Inr cn)
    then show ?thesis by (simp add: parses_def)
  qed
qed


lemma srvOrder_key: "srvOrder = (\<lambda>a b. srvKey a \<le> srvKey b)"
  by (auto simp: srvOrder_def srvKey_def less_eq_prod_def fun_eq_iff)

text \<open>
  \<open>sort.Slice\<close> may leave the records in any sorted arrangement. All of them have the
  same targets in the same order, and the loop reads nothing else.
\<close>

lemma sorted_arrangement_targets:
  assumes "mset ys = mset records" and "sorted_wrt srvOrder ys"
  shows "map Target ys = map Target (sortSlice srvLess records)"
proof -
  let ?zs = "sortSlice srvLess records"
  have "sorted (map srvKey ys)"
    using assms(2) by (simp add: sorted_wrt_map srvOrder_key)
  moreover have "sorted (map srvKey ?zs)"
    using sorted_sortSlice[of records] by (simp add: sorted_wrt_map srvOrder_key)
  moreover have "mset (map srvKey ys) = mset (map srvKey ?zs)"
    using assms(1) by (simp add: mset_sortSlice)
  ultimately have "map srvKey ys = map srvKey ?zs"
    by (metis properties_for_sort)
  then have "map (snd \<circ> srvKey) ys = map (snd \<circ> srvKey) ?zs"
    by (metis map_map)
  then show ?thesis by (simp add: srvKey_def comp_def)
qed

lemma parseRecords_targets:
  "map Target rs = map Target rs' \<Longrightarrow>
     parseRecords env dn rs perr = parseRecords env dn rs' perr"
proof (induction rs arbitrary: rs' perr)
  case Nil
  then show ?case by simp
next
  case (Cons r rs)
  then obtain r' rs'' where "rs' = r' # rs''" "Target r' = Target r" "map Target rs = map Target rs''"
    by (cases rs') auto
  with Cons.IH show ?case by (simp split: sum.splits)
qed


lemma sorted_arrangement_loop:
  assumes "mset ys = mset records" and "sorted_wrt srvOrder ys"
  shows "parseRecords env dn ys perr = parseRecords env dn (sortSlice srvLess records) perr"
  using sorted_arrangement_targets[OF assms] by (rule parseRecords_targets)

lemma queryDNS_unfold:
  assumes "LookupSRV env [] [] dn = (cname, records, err)"
  shows "fst (queryDNS env dn log) =
     (case find (parses env) (sortSlice srvLess records) of
        Some r \<Rightarrow> Inr (projr (ParseConnName env (TrimRight (Target r) ''.'')))
      | None \<Rightarrow>
          (case err of
             Some e \<Rightarrow> Inl (Errorf2 ''unable to resolve SRV record for %q: %v'' dn e)
           | None \<Rightarrow>
               if records = [] then Inl (Errorf1 ''no valid SRV records found for %q'' dn)
               else Inl (Errorf2 ''unable to parse SRV for %q: %v'' dn
                      (projl (ParseConnName env
                         (TrimRight (Target (last (sortSlice srvLess records))) ''.'')))))) "
  using assms
  by (simp add: queryDNS_def Let_def parseRecords_find sortSlice_Nil_iff
           split: option.splits)

lemma find_parses_Some:
  "find (parses env) rs = Some r \<Longrightarrow>
     Inr (projr (ParseConnName env (TrimRight (Target r) ''.''))) =
       ParseConnName env (TrimRight (Target r) ''.'')"
  by (auto simp: find_Some_iff parses_def)

lemma set_sortSlice: "set (sortSlice lt xs) = set xs"
  using mset_sortSlice[of lt xs] by (metis set_mset_mset)

text \<open>
  Claim C1. Whatever the SRV lookup returns, when no record parses as a connection name
  \<open>queryDNS\<close> fails, and the error follows three tiers: the lookup's own error, wrapped
  with the domain name, when there is one; otherwise, when there are records, the parse
  error of the last record visited, wrapped with the domain name; otherwise the
  "no valid SRV records" error for the domain name. And when some record parses,
  \<open>queryDNS\<close> succeeds, also when the lookup reported an error next to the records.
\<close>

theorem queryDNS_error_priority:
  assumes "LookupSRV env [] [] dn = (cname, records, err)"
  shows "((\<forall>r \<in> set records. \<not> parses env r) \<longrightarrow>
           fst (queryDNS env dn log) =
             (case err of
                Some e \<Rightarrow> Inl (Errorf2 ''unable to resolve SRV record for %q: %v'' dn e)
              | None \<Rightarrow>
                  if records = [] then Inl (Errorf1 ''no valid SRV records found for %q'' dn)
                  else Inl (Errorf2 ''unable to parse SRV for %q: %v'' dn
                         (projl (ParseConnName env
                            (TrimRight (Target (last (sortSlice srvLess records))) ''.''))))))
       \<and> ((\<exists>r \<in> set records. parses env r) \<longrightarrow> \<not> isl (fst (queryDNS env dn log)))"
proof (intro conjI impI)
  assume "\<forall>r \<in> set records. \<not> parses env r"
  then have "find (parses env) (sortSlice srvLess records) = None"
    by (simp add: find_None_iff set_sortSlice)
  then show "fst (queryDNS env dn log) =
             (case err of
                Some e \<Rightarrow> Inl (Errorf2 ''unable to resolve SRV record for %q: %v'' dn e)
              | None \<Rightarrow>
                  if records = [] then Inl (Errorf1 ''no valid SRV records found for %q'' dn)
                  else Inl (Errorf2 ''unable to parse SRV for %q: %v'' dn
                         (projl (ParseConnName env
                            (TrimRight (Target (last (sortSlice srvLess records))) ''.'')))))"
    by (simp add: queryDNS_unfold[OF assms])
next
  assume "\<exists>r \<in> set records. parses env r"
  then obtain r where "find (parses env) (sortSlice srvLess records) = Some r"
    by (cases "find (parses env) (sortSlice srvLess records)")
       (auto simp: find_None_iff set_sortSlice)
  then show "\<not> isl (fst (queryDNS env dn log))"
    by (simp add: queryDNS_unfold[OF assms])
qed

text \<open>
  Claim C2. For a non-empty record set, take the records in any arrangement that is
  sorted ascending by priority, ties ascending by target (\<open>sortSlice\<close> gives one, by
  \<open>mset_sortSlice\<close> and \<open>sorted_sortSlice\<close>). The result of \<open>queryDNS\<close> is the connection
  name of the first record of the arrangement whose target, without its trailing dots,
  parses: unparseable records before it are skipped. When no record parses the call
  fails.
\<close>

theorem queryDNS_first_parseable:
  assumes "LookupSRV env [] [] dn = (cname, records, err)"
      and "records \<noteq> []"
      and "mset ys = mset records"
      and "sorted_wrt srvOrder ys"
  shows "case find (parses env) ys of
           Some r \<Rightarrow> fst (queryDNS env dn log) = ParseConnName env (TrimRight (Target r) ''.'')
         | None \<Rightarrow> isl (fst (queryDNS env dn log))"
proof -
  have "parseRecords env dn (sortSlice srvLess records) None = parseRecords env dn ys None"
    using sorted_arrangement_loop[OF assms(3,4)] by simp
  then have loop: "parseRecords env dn (sortSlice srvLess records) None =
     (case find (parses env) ys of
        Some r \<Rightarrow> Returned (projr (ParseConnName env (TrimRight (Target r) ''.'')))
      | None \<Rightarrow>
          Exhausted
            (if ys = [] then None
             else Some (Errorf2 ''unable to parse SRV for %q: %v'' dn
                    (projl (ParseConnName env (TrimRight (Target (last ys)) ''.''))))))"
    by (simp only: parseRecords_find[of env dn ys None])
  show ?thesis
  proof (cases "find (parses env) ys")
    case None
    then show ?thesis
      using assms(1)
      by (simp add: queryDNS_def Let_def loop split: option.splits)
  next
    case (Some r)
    then show ?thesis
      using assms(1)
      by (simp add: queryDNS_def Let_def loop find_parses_Some)
  qed
qed

text \<open>
  Claim C3. When the input parses as a connection name, \<open>Lookup\<close> returns that name and
  sends no SRV query: the log of queries is unchanged. When the input does not parse,
  \<open>Lookup\<close> is \<open>queryDNS\<close>, which sends one query for the input.
\<close>

theorem Lookup_canonical_bypasses_DNS:
  "(\<forall>cn. ParseConnName env icn = Inr cn \<longrightarrow> Lookup env icn log = (Inr cn, log))
   \<and> (\<forall>e. ParseConnName env icn = Inl e \<longrightarrow>
         Lookup env icn log = queryDNS env icn log
         \<and> snd (Lookup env icn log) = log @ [([], [], icn)])"
  by (auto simp: Lookup_def queryDNS_def Let_def split: sum.splits prod.splits option.splits loopResult.splits)



theorem queryDNS_error_priority_witness:
  "fst (queryDNS (fixedResolver [srv 10 ''b.'', srv 5 ''a.x.''] (Some (ExternalError ''timeout'')))
         ''db.example.com'' [])
     = Inl (Errorf2 ''unable to resolve SRV record for %q: %v'' ''db.example.com''
              (ExternalError ''timeout''))
   \<and> fst (queryDNS (fixedResolver [srv 10 ''b.'', srv 5 ''a.x.''] None) ''db.example.com'' [])
     = Inl (Errorf2 ''unable to parse SRV for %q: %v'' ''db.example.com'' (ExternalError ''b''))
   \<and> fst (queryDNS (fixedResolver [] None) ''db.example.com'' [])
     = Inl (Errorf1 ''no valid SRV records found for %q'' ''db.example.com'')
   \<and> \<not> isl (fst (queryDNS (fixedResolver [srv 10 ''b.'', srv 5 ''p:r:i.''] (Some (ExternalError ''timeout'')))
         ''db.example.com'' []))"
proof -
  let ?bad = "[srv 10 ''b.'', srv 5 ''a.x.'']"
  let ?good = "[srv 10 ''b.'', srv 5 ''p:r:i.'']"
  let ?e = "Some (ExternalError ''timeout'')"
  have l: "\<And>rs err. LookupSRV (fixedResolver rs err) [] [] ''db.example.com'' = ([], rs, err)"
    by (simp add: fixedResolver_def)
  have bad: "\<And>err. \<forall>r \<in> set ?bad. \<not> parses (fixedResolver ?bad err) r"
    by (simp add: parses_def fixedResolver_def srv_def TrimRight_def parseThreeSegments_def)
  have good: "\<exists>r \<in> set ?good. parses (fixedResolver ?good ?e) r"
    by (simp add: parses_def fixedResolver_def srv_def TrimRight_def parseThreeSegments_def)
  have srt: "last (sortSlice srvLess ?bad) = srv 10 ''b.''"
    by (simp add: sortSlice_def srvLess_def srv_def)
  have tb: "ParseConnName (fixedResolver ?bad None) (TrimRight (Target (srv 10 ''b.'')) ''.'') = Inl (ExternalError ''b'')"
    by (simp add: fixedResolver_def srv_def TrimRight_def parseThreeSegments_def)
  have c1: "fst (queryDNS (fixedResolver ?bad ?e) ''db.example.com'' [])
     = Inl (Errorf2 ''unable to resolve SRV record for %q: %v'' ''db.example.com''
              (ExternalError ''timeout''))"
    using queryDNS_error_priority[OF l, of ?bad ?e "[]"] bad by simp
  have c2: "fst (queryDNS (fixedResolver ?bad None) ''db.example.com'' [])
     = Inl (Errorf2 ''unable to parse SRV for %q: %v'' ''db.example.com'' (ExternalError ''b''))"
    using queryDNS_error_priority[OF l, of ?bad None "[]"] bad srt tb by simp
  have c3: "fst (queryDNS (fixedResolver [] None) ''db.example.com'' [])
     = Inl (Errorf1 ''no valid SRV records found for %q'' ''db.example.com'')"
    using queryDNS_error_priority[OF l, of "[]" None "[]"] by simp
  have c4: "\<not> isl (fst (queryDNS (fixedResolver ?good ?e) ''db.example.com'' []))"
    using queryDNS_error_priority[OF l, of ?good ?e "[]"] good by blast
  show ?thesis using c1 c2 c3 c4 by blast
qed


theorem queryDNS_first_parseable_witness:
  "LookupSRV (fixedResolver [srv 10 ''p:r:b.'', srv 5 ''a.x.'', srv 5 ''p:r:a..''] None)
      [] [] ''db.example.com''
     = ([], [srv 10 ''p:r:b.'', srv 5 ''a.x.'', srv 5 ''p:r:a..''], None)
   \<and> [srv 10 ''p:r:b.'', srv 5 ''a.x.'', srv 5 ''p:r:a..''] \<noteq> []
   \<and> mset [srv 5 ''a.x.'', srv 5 ''p:r:a..'', srv 10 ''p:r:b.'']
     = mset [srv 10 ''p:r:b.'', srv 5 ''a.x.'', srv 5 ''p:r:a..'']
   \<and> sorted_wrt srvOrder [srv 5 ''a.x.'', srv 5 ''p:r:a..'', srv 10 ''p:r:b.'']
   \<and> find (parses (fixedResolver [srv 10 ''p:r:b.'', srv 5 ''a.x.'', srv 5 ''p:r:a..''] None))
        [srv 5 ''a.x.'', srv 5 ''p:r:a..'', srv 10 ''p:r:b.'']
     = Some (srv 5 ''p:r:a..'')
   \<and> fst (queryDNS (fixedResolver [srv 10 ''p:r:b.'', srv 5 ''a.x.'', srv 5 ''p:r:a..''] None)
           ''db.example.com'' [])
     = Inr \<lparr>project = ''p'', region = ''r'', name = ''a''\<rparr>"
proof -
  let ?rs = "[srv 10 ''p:r:b.'', srv 5 ''a.x.'', srv 5 ''p:r:a..'']"
  let ?ys = "[srv 5 ''a.x.'', srv 5 ''p:r:a..'', srv 10 ''p:r:b.'']"
  let ?env = "fixedResolver ?rs None"
  have l: "LookupSRV ?env [] [] ''db.example.com'' = ([], ?rs, None)"
    by (simp add: fixedResolver_def)
  have ne: "?rs \<noteq> []" by simp
  have m: "mset ?ys = mset ?rs" by simp
  have srt: "sorted_wrt srvOrder ?ys"
    by (simp add: srvOrder_def srv_def)
  have p1: "\<not> parses ?env (srv 5 ''a.x.'')"
    by (simp add: parses_def fixedResolver_def srv_def TrimRight_def parseThreeSegments_def)
  have p2: "ParseConnName ?env (TrimRight (Target (srv 5 ''p:r:a..'')) ''.'')
              = Inr \<lparr>project = ''p'', region = ''r'', name = ''a''\<rparr>"
    by (simp add: fixedResolver_def srv_def TrimRight_def parseThreeSegments_def)
  then have p2': "parses ?env (srv 5 ''p:r:a..'')"
    by (simp add: parses_def)
  have f: "find (parses ?env) ?ys = Some (srv 5 ''p:r:a..'')"
    using p1 p2' by simp
  have r: "fst (queryDNS ?env ''db.example.com'' [])
             = Inr \<lparr>project = ''p'', region = ''r'', name = ''a''\<rparr>"
    using queryDNS_first_parseable[OF l ne m srt, of "[]"] f p2 by simp
  show ?thesis using l ne m srt f r by blast
qed

theorem Lookup_canonical_bypasses_DNS_witness:
  "ParseConnName (fixedResolver [srv 1 ''p:r:other.''] None) ''my-project:us-central1:my-instance''
     = Inr \<lparr>project = ''my-project'', region = ''us-central1'', name = ''my-instance''\<rparr>
   \<and> Lookup (fixedResolver [srv 1 ''p:r:other.''] None) ''my-project:us-central1:my-instance'' []
     = (Inr \<lparr>project = ''my-project'', region = ''us-central1'', name = ''my-instance''\<rparr>, [])
   \<and> ParseConnName (fixedResolver [srv 1 ''p:r:other.''] None) ''db.example.com''
     = Inl (ExternalError ''db.example.com'')
   \<and> Lookup (fixedResolver [srv 1 ''p:r:other.''] None) ''db.example.com'' []
     = queryDNS (fixedResolver [srv 1 ''p:r:other.''] None) ''db.example.com'' []
   \<and> snd (Lookup (fixedResolver [srv 1 ''p:r:other.''] None) ''db.example.com'' [])
     = [([], [], ''db.example.com'')]"
proof -
  let ?env = "fixedResolver [srv 1 ''p:r:other.''] None"
  have a: "ParseConnName ?env ''my-project:us-central1:my-instance''
     = Inr \<lparr>project = ''my-project'', region = ''us-central1'', name = ''my-instance''\<rparr>"
    by (simp add: fixedResolver_def parseThreeSegments_def)
  have b: "ParseConnName ?env ''db.example.com'' = Inl (ExternalError ''db.example.com'')"
    by (simp add: fixedResolver_def parseThreeSegments_def)
  have c: "Lookup ?env ''my-project:us-central1:my-instance'' []
     = (Inr \<lparr>project = ''my-project'', region = ''us-central1'', name = ''my-instance''\<rparr>, [])"
    using Lookup_canonical_bypasses_DNS[of ?env "''my-project:us-central1:my-instance''" "[]"] a
    by blast
  have d: "Lookup ?env ''db.example.com'' [] = queryDNS ?env ''db.example.com'' []
     \<and> snd (Lookup ?env ''db.example.com'' []) = [] @ [([], [], ''db.example.com'')]"
    using Lookup_canonical_bypasses_DNS[of ?env "''db.example.com''" "[]"] b
    by blast
  from d have d1: "Lookup ?env ''db.example.com'' [] = queryDNS ?env ''db.example.com'' []"
    by (rule conjunct1)
  from d have "snd (Lookup ?env ''db.example.com'' []) = [] @ [([], [], ''db.example.com'')]"
    by (rule conjunct2)
  then have d2: "snd (Lookup ?env ''db.example.com'' []) = [([], [], ''db.example.com'')]"
    by (simp only: append_Nil)
  show ?thesis using a b c d1 d2 by blast
qed

subsection \<open>The dialer: the registry\<close>

lemma Dialer_instance_is_locked:
  "Dialer_instance env d connName = Dialer_instance_locked env d connName"
  by (simp add: Dialer_instance_def Dialer_instance_locked_def split: option.splits)

lemma provider_cases:
  assumes "fst (Dialer_instance env d inst) = Inr i"
  shows "instances d inst = Some i \<or> (instances d inst = None \<and> NewInstance env inst = Inr i)"
  using assms
  by (auto simp: Dialer_instance_def Dialer_instance_locked_def
           split: option.splits sum.splits)

lemma Dial_prelude:
  assumes "fst (Dialer_instance env d inst) = Inr i"
  shows "\<exists>es. (es = [] \<or> es = [NewInstanceCall inst (Inr i)])
          \<and> Dialer_instance env
               (d\<lparr>events := events d @ pre\<rparr>) inst
             = (Inr i, d\<lparr>instances := (instances d)(inst \<mapsto> i),
                         events := events d @ pre @ es\<rparr>)"
proof -
  from provider_cases[OF assms] show ?thesis
  proof
    assume s: "instances d inst = Some i"
    then have "(instances d)(inst \<mapsto> i) = instances d" by (rule map_upd_triv)
    with s have "Dialer_instance env (d\<lparr>events := events d @ pre\<rparr>) inst
             = (Inr i, d\<lparr>instances := (instances d)(inst \<mapsto> i),
                         events := events d @ pre @ []\<rparr>)"
      by (simp add: Dialer_instance_def)
    then show ?thesis by blast
  next
    assume "instances d inst = None \<and> NewInstance env inst = Inr i"
    then have "Dialer_instance env (d\<lparr>events := events d @ pre\<rparr>) inst
             = (Inr i, d\<lparr>instances := (instances d)(inst \<mapsto> i),
                         events := events d @ pre @ [NewInstanceCall inst (Inr i)]\<rparr>)"
      by (simp add: Dialer_instance_def Dialer_instance_locked_def record_events_def)
    then show ?thesis by blast
  qed
qed

subsection \<open>The dialer: the instrumented connection\<close>

text \<open>
  Claim C9. \<open>Close\<close> of an instrumented connection calls the \<open>Close\<close> of the connection it
  wraps. When that returns no error, the callback is started as a goroutine and \<open>Close\<close>
  returns no error; when it returns an error, \<open>Close\<close> returns that error and no
  goroutine is started.
\<close>

theorem instrumentedConn_Close_callback:
  "(connClose env (Conn ic) = None \<longrightarrow>
      instrumentedConn_Close env ic d =
        (None, d\<lparr>events := events d @ [CloseCall (Conn ic)],
                 tasks := tasks d @ [closeFunc ic]\<rparr>))
   \<and> (\<forall>err. connClose env (Conn ic) = Some err \<longrightarrow>
         instrumentedConn_Close env ic d =
           (Some err, d\<lparr>events := events d @ [CloseCall (Conn ic)]\<rparr>))"
  by (simp add: instrumentedConn_Close_def record_events_def Let_def)

subsection \<open>The dialer: the failure paths of Dial\<close>

text \<open>
  Claim C7. When the provider's \<open>ConnectInfo\<close> fails, \<open>Dial\<close> returns that very error.
  \<open>ConnectInfo\<close> was called once; \<open>ForceRefresh\<close> and the dial function were not called;
  the counters are unchanged and no goroutine was started.
\<close>

theorem Dial_ConnectInfo_error:
  assumes "fst (Dialer_instance env d inst) = Inr i"
      and "ConnectInfo env i (ipType (applyDialOptions opts (defaultDialCfg d))) = Inl err"
  shows "fst (Dial env d inst opts) = Inl err
       \<and> filter isConnectInfo (newEvents d (snd (Dial env d inst opts)))
           = [ConnectInfoCall i (ipType (applyDialOptions opts (defaultDialCfg d)))]
       \<and> filter isForceRefresh (newEvents d (snd (Dial env d inst opts))) = []
       \<and> filter isDialFunc (newEvents d (snd (Dial env d inst opts))) = []
       \<and> openConns (snd (Dial env d inst opts)) = openConns d
       \<and> tasks (snd (Dial env d inst opts)) = tasks d"
proof -
  from Dial_prelude[OF assms(1)]
  obtain es where es: "es = [] \<or> es = [NewInstanceCall inst (Inr i)]"
    and st: "Dialer_instance env
               (d\<lparr>events := events d @
                    [StartSpan spanDial [inst, dialerID d], StartSpan spanInstanceInfo []]\<rparr>) inst
             = (Inr i, d\<lparr>instances := (instances d)(inst \<mapsto> i),
                         events := events d @
                           [StartSpan spanDial [inst, dialerID d], StartSpan spanInstanceInfo []]
                           @ es\<rparr>)"
    by blast
  from es show ?thesis
    by (auto simp: Dial_def Let_def st assms(2) record_events_def newEvents_def)
qed


lemma Dialer_instance_ignores_connClose:
  "Dialer_instance (env\<lparr>connClose := cl\<rparr>) d n = Dialer_instance env d n"
  by (simp add: Dialer_instance_def Dialer_instance_locked_def
           cong: sum.case_cong option.case_cong)

lemma setKeepAlives_ignores_connClose:
  "setKeepAlives (env\<lparr>connClose := cl\<rparr>) cfg i c d = setKeepAlives env cfg i c d"
  by (simp add: setKeepAlives_def cong: option.case_cong)

lemma Dial_ignores_connClose:
  "Dial (env\<lparr>connClose := cl\<rparr>) d inst opts = Dial env d inst opts"
  by (simp add: Dial_def Dialer_instance_ignores_connClose setKeepAlives_ignores_connClose
           cong: sum.case_cong option.case_cong prod.case_cong)

text \<open>
  Claim C5. When the dial function fails, \<open>Dial\<close> returns the dial error
  "failed to dial" that carries the provider's string identity and the error of the dial
  function. \<open>ForceRefresh\<close> was called exactly once, on the provider, and the dial
  function was called exactly once: there is no second attempt.
\<close>

theorem Dial_tcp_failure:
  assumes "fst (Dialer_instance env d inst) = Inr i"
      and "ConnectInfo env i (ipType (applyDialOptions opts (defaultDialCfg d)))
             = Inr (addr, tlsCfg)"
      and "dialFunc env ''tcp'' (JoinHostPort addr serverProxyPort) = Inl err"
  shows "fst (Dial env d inst opts) = Inl (DialError ''failed to dial'' (String i) err)
       \<and> filter isForceRefresh (newEvents d (snd (Dial env d inst opts)))
           = [ForceRefreshCall i]
       \<and> filter isDialFunc (newEvents d (snd (Dial env d inst opts)))
           = [DialFuncCall ''tcp'' (JoinHostPort addr serverProxyPort)]"
proof -
  from Dial_prelude[OF assms(1)]
  obtain es where es: "es = [] \<or> es = [NewInstanceCall inst (Inr i)]"
    and st: "Dialer_instance env
               (d\<lparr>events := events d @
                    [StartSpan spanDial [inst, dialerID d], StartSpan spanInstanceInfo []]\<rparr>) inst
             = (Inr i, d\<lparr>instances := (instances d)(inst \<mapsto> i),
                         events := events d @
                           [StartSpan spanDial [inst, dialerID d], StartSpan spanInstanceInfo []]
                           @ es\<rparr>)"
    by blast
  from es show ?thesis
    by (auto simp: Dial_def Let_def st assms(2,3) record_events_def newEvents_def)
qed

text \<open>
  Claim C6. When the TLS handshake fails, \<open>Dial\<close> returns the dial error
  "handshake failed" that carries the provider's string identity and the handshake's
  error. \<open>ForceRefresh\<close> was called on the provider and \<open>Close\<close> on the TLS connection,
  in this order, and what \<open>Close\<close> returns changes nothing of the call.
\<close>

theorem Dial_handshake_failure:
  assumes "fst (Dialer_instance env d inst) = Inr i"
      and "ConnectInfo env i (ipType (applyDialOptions opts (defaultDialCfg d)))
             = Inr (addr, tlsCfg)"
      and "dialFunc env ''tcp'' (JoinHostPort addr serverProxyPort) = Inr c"
      and "fst (setKeepAlives env (applyDialOptions opts (defaultDialCfg d)) i c d) = None"
      and "Handshake env (TLSClient c tlsCfg) = Some err"
  shows "fst (Dial env d inst opts) = Inl (DialError ''handshake failed'' (String i) err)
       \<and> filter (\<lambda>e. isForceRefresh e \<or> isClose e) (newEvents d (snd (Dial env d inst opts)))
           = [ForceRefreshCall i, CloseCall (TLSClient c tlsCfg)]
       \<and> Dial (env\<lparr>connClose := cl\<rparr>) d inst opts = Dial env d inst opts"
proof -
  from Dial_prelude[OF assms(1)]
  obtain es where es: "es = [] \<or> es = [NewInstanceCall inst (Inr i)]"
    and st: "Dialer_instance env
               (d\<lparr>events := events d @
                    [StartSpan spanDial [inst, dialerID d], StartSpan spanInstanceInfo []]\<rparr>) inst
             = (Inr i, d\<lparr>instances := (instances d)(inst \<mapsto> i),
                         events := events d @
                           [StartSpan spanDial [inst, dialerID d], StartSpan spanInstanceInfo []]
                           @ es\<rparr>)"
    by blast
  have ka: "\<And>d'. setKeepAlives env (applyDialOptions opts (defaultDialCfg d)) i c d'
              = (None, if isTCPConn c
                       then record_events d'
                              [SetKeepAliveCall c True,
                               SetKeepAlivePeriodCall c
                                 (tcpKeepAlive (applyDialOptions opts (defaultDialCfg d)))]
                       else d')"
    using assms(4) by (auto simp: setKeepAlives_def split: option.splits)
  have r: "fst (Dial env d inst opts) = Inl (DialError ''handshake failed'' (String i) err)
       \<and> filter (\<lambda>e. isForceRefresh e \<or> isClose e) (newEvents d (snd (Dial env d inst opts)))
           = [ForceRefreshCall i, CloseCall (TLSClient c tlsCfg)]"
    using es
    by (auto simp: Dial_def Let_def st assms(2,3,5) ka record_events_def newEvents_def)
  have "Dial (env\<lparr>connClose := cl\<rparr>) d inst opts = Dial env d inst opts"
    by (rule Dial_ignores_connClose)
  with r show ?thesis by blast
qed

text \<open>
  Claim C10. When the connection is a TCP connection and enabling keep-alive, or setting
  its period, fails, \<open>Dial\<close> returns a dial error that carries the provider's string
  identity and the error. Unlike the two paths above, \<open>ForceRefresh\<close> was not called
  and the connection was not closed.
\<close>

theorem Dial_keepalive_failure:
  assumes "fst (Dialer_instance env d inst) = Inr i"
      and "ConnectInfo env i (ipType (applyDialOptions opts (defaultDialCfg d)))
             = Inr (addr, tlsCfg)"
      and "dialFunc env ''tcp'' (JoinHostPort addr serverProxyPort) = Inr c"
      and "isTCPConn c"
      and "(SetKeepAlive env c True = Some err \<and> reason = ''failed to set keep-alive'')
         \<or> (SetKeepAlive env c True = None
            \<and> SetKeepAlivePeriod env c (tcpKeepAlive (applyDialOptions opts (defaultDialCfg d)))
                = Some err
            \<and> reason = ''failed to set keep-alive period'')"
  shows "fst (Dial env d inst opts) = Inl (DialError reason (String i) err)
       \<and> filter (\<lambda>e. isForceRefresh e \<or> isClose e)
           (newEvents d (snd (Dial env d inst opts))) = []
       \<and> filter isDialFunc (newEvents d (snd (Dial env d inst opts)))
           = [DialFuncCall ''tcp'' (JoinHostPort addr serverProxyPort)]"
proof -
  from Dial_prelude[OF assms(1)]
  obtain es where es: "es = [] \<or> es = [NewInstanceCall inst (Inr i)]"
    and st: "Dialer_instance env
               (d\<lparr>events := events d @
                    [StartSpan spanDial [inst, dialerID d], StartSpan spanInstanceInfo []]\<rparr>) inst
             = (Inr i, d\<lparr>instances := (instances d)(inst \<mapsto> i),
                         events := events d @
                           [StartSpan spanDial [inst, dialerID d], StartSpan spanInstanceInfo []]
                           @ es\<rparr>)"
    by blast
  from assms(5) es show ?thesis
    by (auto simp: Dial_def Let_def st assms(2,3,4) setKeepAlives_def
                   record_events_def newEvents_def)
qed

subsection \<open>The dialer: counters and goroutines\<close>





lemma Dial_closeFunc: "fst (Dial env d inst opts) = Inr ic \<Longrightarrow> closeFunc ic = CloseFunc inst"
  by (auto simp: Dial_def Let_def split: prod.splits sum.splits option.splits)

subsection \<open>The dialer: Dial with the scheduler\<close>





















subsection \<open>The dialer: concrete runs\<close>

lemma goodEnv_simps:
  "NewInstance goodEnv n = Inr \<lparr>ptr = 1, String = n\<rparr>"
  "ConnectInfo goodEnv i t = Inr (''10.0.0.1'', TLSConfig (String i))"
  "dialFunc goodEnv network addr = Inr (TCPConn 7)"
  "SetKeepAlive goodEnv c b = None"
  "SetKeepAlivePeriod goodEnv c p = None"
  "Handshake goodEnv c = None"
  "connClose goodEnv c = None"
  "Since goodEnv = 12"
  by (simp_all add: goodEnv_def)

lemma failingEnv_simps:
  "NewInstance (failingEnv s) n =
     (if s = ''NewInstance'' then Inl (ExternalError ''no admin client'')
      else Inr \<lparr>ptr = 1, String = n\<rparr>)"
  "ConnectInfo (failingEnv s) i t =
     (if s = ''ConnectInfo'' then Inl (ExternalError ''refresh failed'')
      else Inr (''10.0.0.1'', TLSConfig (String i)))"
  "dialFunc (failingEnv s) network addr =
     (if s = ''dialFunc'' then Inl (ExternalError ''connection refused'') else Inr (TCPConn 7))"
  "SetKeepAlive (failingEnv s) c b =
     (if s = ''SetKeepAlive'' then Some (ExternalError ''not supported'') else None)"
  "SetKeepAlivePeriod (failingEnv s) c p =
     (if s = ''SetKeepAlivePeriod'' then Some (ExternalError ''invalid period'') else None)"
  "Handshake (failingEnv s) c =
     (if s = ''Handshake'' then Some (ExternalError ''bad certificate'') else None)"
  "connClose (failingEnv s) c =
     (if s = ''Close'' then Some (ExternalError ''broken pipe'') else None)"
  "Since (failingEnv s) = 12"
  by (simp_all add: failingEnv_def goodEnv_def)

lemma freshDialer_simps:
  "instances freshDialer = Map.empty"
  "openConns freshDialer = Map.empty"
  "defaultDialCfg freshDialer = \<lparr>ipType = PublicIP, tcpKeepAlive = defaultTCPKeepAlive\<rparr>"
  "dialerID freshDialer = ''dialer-1''"
  "events freshDialer = []"
  "tasks freshDialer = []"
  by (simp_all add: freshDialer_def)

lemma fresh_provider:
  "s \<noteq> ''NewInstance'' \<Longrightarrow>
     fst (Dialer_instance (failingEnv s) freshDialer n) = Inr \<lparr>ptr = 1, String = n\<rparr>"
  by (simp add: Dialer_instance_def Dialer_instance_locked_def failingEnv_simps freshDialer_simps)

theorem instrumentedConn_Close_callback_witness:
  "connClose goodEnv (Conn conn1) = None
   \<and> instrumentedConn_Close goodEnv conn1 freshDialer
       = (None, freshDialer\<lparr>events := events freshDialer @ [CloseCall (Conn conn1)],
                            tasks := tasks freshDialer @ [CloseFunc ''p:r:i'']\<rparr>)
   \<and> connClose (failingEnv ''Close'') (Conn conn1) = Some (ExternalError ''broken pipe'')
   \<and> instrumentedConn_Close (failingEnv ''Close'') conn1 freshDialer
       = (Some (ExternalError ''broken pipe''),
          freshDialer\<lparr>events := events freshDialer @ [CloseCall (Conn conn1)]\<rparr>)"
proof -
  have a: "connClose goodEnv (Conn conn1) = None" by (simp add: goodEnv_simps)
  have b: "connClose (failingEnv ''Close'') (Conn conn1) = Some (ExternalError ''broken pipe'')"
    by (simp add: failingEnv_simps)
  have c: "closeFunc conn1 = CloseFunc ''p:r:i''" by (simp add: conn1_def)
  show ?thesis
    using instrumentedConn_Close_callback[of goodEnv conn1 freshDialer]
          instrumentedConn_Close_callback[of "failingEnv ''Close''" conn1 freshDialer]
          a b c
    by simp
qed

theorem Dial_ConnectInfo_error_witness:
  "fst (Dialer_instance (failingEnv ''ConnectInfo'') freshDialer ''p:r:i'')
     = Inr \<lparr>ptr = 1, String = ''p:r:i''\<rparr>
   \<and> ConnectInfo (failingEnv ''ConnectInfo'') \<lparr>ptr = 1, String = ''p:r:i''\<rparr>
        (ipType (applyDialOptions [] (defaultDialCfg freshDialer)))
     = Inl (ExternalError ''refresh failed'')
   \<and> fst (Dial (failingEnv ''ConnectInfo'') freshDialer ''p:r:i'' [])
     = Inl (ExternalError ''refresh failed'')
   \<and> filter isForceRefresh
        (newEvents freshDialer (snd (Dial (failingEnv ''ConnectInfo'') freshDialer ''p:r:i'' [])))
     = []
   \<and> filter isDialFunc
        (newEvents freshDialer (snd (Dial (failingEnv ''ConnectInfo'') freshDialer ''p:r:i'' [])))
     = []
   \<and> openConns (snd (Dial (failingEnv ''ConnectInfo'') freshDialer ''p:r:i'' [])) = Map.empty
   \<and> tasks (snd (Dial (failingEnv ''ConnectInfo'') freshDialer ''p:r:i'' [])) = []"
proof -
  have a: "fst (Dialer_instance (failingEnv ''ConnectInfo'') freshDialer ''p:r:i'')
     = Inr \<lparr>ptr = 1, String = ''p:r:i''\<rparr>"
    by (rule fresh_provider) simp
  have b: "ConnectInfo (failingEnv ''ConnectInfo'') \<lparr>ptr = 1, String = ''p:r:i''\<rparr>
        (ipType (applyDialOptions [] (defaultDialCfg freshDialer)))
     = Inl (ExternalError ''refresh failed'')"
    by (simp add: failingEnv_simps)
  show ?thesis
    using Dial_ConnectInfo_error[OF a b] a b
    by (simp add: freshDialer_simps)
qed




theorem Dial_tcp_failure_witness:
  "fst (Dialer_instance (failingEnv ''dialFunc'') freshDialer ''p:r:i'')
     = Inr \<lparr>ptr = 1, String = ''p:r:i''\<rparr>
   \<and> ConnectInfo (failingEnv ''dialFunc'') \<lparr>ptr = 1, String = ''p:r:i''\<rparr>
        (ipType (applyDialOptions [] (defaultDialCfg freshDialer)))
     = Inr (''10.0.0.1'', TLSConfig ''p:r:i'')
   \<and> dialFunc (failingEnv ''dialFunc'') ''tcp'' (JoinHostPort ''10.0.0.1'' serverProxyPort)
     = Inl (ExternalError ''connection refused'')
   \<and> fst (Dial (failingEnv ''dialFunc'') freshDialer ''p:r:i'' [])
     = Inl (DialError ''failed to dial'' ''p:r:i'' (ExternalError ''connection refused''))
   \<and> filter isForceRefresh
        (newEvents freshDialer (snd (Dial (failingEnv ''dialFunc'') freshDialer ''p:r:i'' [])))
     = [ForceRefreshCall \<lparr>ptr = 1, String = ''p:r:i''\<rparr>]
   \<and> filter isDialFunc
        (newEvents freshDialer (snd (Dial (failingEnv ''dialFunc'') freshDialer ''p:r:i'' [])))
     = [DialFuncCall ''tcp'' ''10.0.0.1:3307'']"
proof -
  have a: "fst (Dialer_instance (failingEnv ''dialFunc'') freshDialer ''p:r:i'')
     = Inr \<lparr>ptr = 1, String = ''p:r:i''\<rparr>"
    by (rule fresh_provider) simp
  have b: "ConnectInfo (failingEnv ''dialFunc'') \<lparr>ptr = 1, String = ''p:r:i''\<rparr>
        (ipType (applyDialOptions [] (defaultDialCfg freshDialer)))
     = Inr (''10.0.0.1'', TLSConfig ''p:r:i'')"
    by (simp add: failingEnv_simps)
  have c: "dialFunc (failingEnv ''dialFunc'') ''tcp'' (JoinHostPort ''10.0.0.1'' serverProxyPort)
     = Inl (ExternalError ''connection refused'')"
    by (simp add: failingEnv_simps)
  have j: "JoinHostPort ''10.0.0.1'' serverProxyPort = ''10.0.0.1:3307''"
    by (simp add: JoinHostPort_def serverProxyPort_def)
  show ?thesis
    using Dial_tcp_failure[OF a b c] a b c
    by (simp add: j)
qed

theorem Dial_handshake_failure_witness:
  "fst (Dialer_instance (failingEnv ''Handshake'') freshDialer ''p:r:i'')
     = Inr \<lparr>ptr = 1, String = ''p:r:i''\<rparr>
   \<and> ConnectInfo (failingEnv ''Handshake'') \<lparr>ptr = 1, String = ''p:r:i''\<rparr>
        (ipType (applyDialOptions [] (defaultDialCfg freshDialer)))
     = Inr (''10.0.0.1'', TLSConfig ''p:r:i'')
   \<and> dialFunc (failingEnv ''Handshake'') ''tcp'' (JoinHostPort ''10.0.0.1'' serverProxyPort)
     = Inr (TCPConn 7)
   \<and> fst (setKeepAlives (failingEnv ''Handshake'')
            (applyDialOptions [] (defaultDialCfg freshDialer))
            \<lparr>ptr = 1, String = ''p:r:i''\<rparr> (TCPConn 7) freshDialer) = None
   \<and> Handshake (failingEnv ''Handshake'') (TLSClient (TCPConn 7) (TLSConfig ''p:r:i''))
     = Some (ExternalError ''bad certificate'')
   \<and> fst (Dial (failingEnv ''Handshake'') freshDialer ''p:r:i'' [])
     = Inl (DialError ''handshake failed'' ''p:r:i'' (ExternalError ''bad certificate''))
   \<and> filter (\<lambda>e. isForceRefresh e \<or> isClose e)
        (newEvents freshDialer (snd (Dial (failingEnv ''Handshake'') freshDialer ''p:r:i'' [])))
     = [ForceRefreshCall \<lparr>ptr = 1, String = ''p:r:i''\<rparr>,
        CloseCall (TLSClient (TCPConn 7) (TLSConfig ''p:r:i''))]
   \<and> Dial ((failingEnv ''Handshake'')\<lparr>connClose := (\<lambda>c. Some (ExternalError ''broken pipe''))\<rparr>)
        freshDialer ''p:r:i'' []
     = Dial (failingEnv ''Handshake'') freshDialer ''p:r:i'' []"
proof -
  have a: "fst (Dialer_instance (failingEnv ''Handshake'') freshDialer ''p:r:i'')
     = Inr \<lparr>ptr = 1, String = ''p:r:i''\<rparr>"
    by (rule fresh_provider) simp
  have b: "ConnectInfo (failingEnv ''Handshake'') \<lparr>ptr = 1, String = ''p:r:i''\<rparr>
        (ipType (applyDialOptions [] (defaultDialCfg freshDialer)))
     = Inr (''10.0.0.1'', TLSConfig ''p:r:i'')"
    by (simp add: failingEnv_simps)
  have c: "dialFunc (failingEnv ''Handshake'') ''tcp'' (JoinHostPort ''10.0.0.1'' serverProxyPort)
     = Inr (TCPConn 7)"
    by (simp add: failingEnv_simps)
  have k: "fst (setKeepAlives (failingEnv ''Handshake'')
            (applyDialOptions [] (defaultDialCfg freshDialer))
            \<lparr>ptr = 1, String = ''p:r:i''\<rparr> (TCPConn 7) freshDialer) = None"
    by (simp add: setKeepAlives_def failingEnv_simps)
  have h: "Handshake (failingEnv ''Handshake'') (TLSClient (TCPConn 7) (TLSConfig ''p:r:i''))
     = Some (ExternalError ''bad certificate'')"
    by (simp add: failingEnv_simps)
  show ?thesis
    using Dial_handshake_failure[OF a b c k h] a b c k h
    by simp
qed

theorem Dial_keepalive_failure_witness:
  "fst (Dialer_instance (failingEnv ''SetKeepAlivePeriod'') freshDialer ''p:r:i'')
     = Inr \<lparr>ptr = 1, String = ''p:r:i''\<rparr>
   \<and> ConnectInfo (failingEnv ''SetKeepAlivePeriod'') \<lparr>ptr = 1, String = ''p:r:i''\<rparr>
        (ipType (applyDialOptions [] (defaultDialCfg freshDialer)))
     = Inr (''10.0.0.1'', TLSConfig ''p:r:i'')
   \<and> dialFunc (failingEnv ''SetKeepAlivePeriod'') ''tcp''
        (JoinHostPort ''10.0.0.1'' serverProxyPort)
     = Inr (TCPConn 7)
   \<and> isTCPConn (TCPConn 7)
   \<and> SetKeepAlive (failingEnv ''SetKeepAlivePeriod'') (TCPConn 7) True = None
   \<and> SetKeepAlivePeriod (failingEnv ''SetKeepAlivePeriod'') (TCPConn 7)
        (tcpKeepAlive (applyDialOptions [] (defaultDialCfg freshDialer)))
     = Some (ExternalError ''invalid period'')
   \<and> fst (Dial (failingEnv ''SetKeepAlivePeriod'') freshDialer ''p:r:i'' [])
     = Inl (DialError ''failed to set keep-alive period'' ''p:r:i''
              (ExternalError ''invalid period''))
   \<and> filter (\<lambda>e. isForceRefresh e \<or> isClose e)
        (newEvents freshDialer
           (snd (Dial (failingEnv ''SetKeepAlivePeriod'') freshDialer ''p:r:i'' [])))
     = []
   \<and> SetKeepAlive (failingEnv ''SetKeepAlive'') (TCPConn 7) True
     = Some (ExternalError ''not supported'')
   \<and> fst (Dial (failingEnv ''SetKeepAlive'') freshDialer ''p:r:i'' [])
     = Inl (DialError ''failed to set keep-alive'' ''p:r:i'' (ExternalError ''not supported''))
   \<and> filter (\<lambda>e. isForceRefresh e \<or> isClose e)
        (newEvents freshDialer (snd (Dial (failingEnv ''SetKeepAlive'') freshDialer ''p:r:i'' [])))
     = []"
proof -
  let ?p = "failingEnv ''SetKeepAlivePeriod''"
  let ?k = "failingEnv ''SetKeepAlive''"
  let ?i = "\<lparr>ptr = 1, String = ''p:r:i''\<rparr>"
  have a: "fst (Dialer_instance ?p freshDialer ''p:r:i'') = Inr ?i"
    by (rule fresh_provider) simp
  have a': "fst (Dialer_instance ?k freshDialer ''p:r:i'') = Inr ?i"
    by (rule fresh_provider) simp
  have b: "ConnectInfo ?p ?i (ipType (applyDialOptions [] (defaultDialCfg freshDialer)))
     = Inr (''10.0.0.1'', TLSConfig ''p:r:i'')"
    by (simp add: failingEnv_simps)
  have b': "ConnectInfo ?k ?i (ipType (applyDialOptions [] (defaultDialCfg freshDialer)))
     = Inr (''10.0.0.1'', TLSConfig ''p:r:i'')"
    by (simp add: failingEnv_simps)
  have c: "dialFunc ?p ''tcp'' (JoinHostPort ''10.0.0.1'' serverProxyPort) = Inr (TCPConn 7)"
    by (simp add: failingEnv_simps)
  have c': "dialFunc ?k ''tcp'' (JoinHostPort ''10.0.0.1'' serverProxyPort) = Inr (TCPConn 7)"
    by (simp add: failingEnv_simps)
  have t: "isTCPConn (TCPConn 7)" by simp
  have k1: "SetKeepAlive ?p (TCPConn 7) True = None"
    by (simp add: failingEnv_simps)
  have k2: "SetKeepAlivePeriod ?p (TCPConn 7)
              (tcpKeepAlive (applyDialOptions [] (defaultDialCfg freshDialer)))
            = Some (ExternalError ''invalid period'')"
    by (simp add: failingEnv_simps)
  have k3: "SetKeepAlive ?k (TCPConn 7) True = Some (ExternalError ''not supported'')"
    by (simp add: failingEnv_simps)
  have r1: "fst (Dial ?p freshDialer ''p:r:i'' [])
              = Inl (DialError ''failed to set keep-alive period'' (String ?i)
                       (ExternalError ''invalid period''))
          \<and> filter (\<lambda>e. isForceRefresh e \<or> isClose e)
               (newEvents freshDialer (snd (Dial ?p freshDialer ''p:r:i'' []))) = []
          \<and> filter isDialFunc (newEvents freshDialer (snd (Dial ?p freshDialer ''p:r:i'' [])))
               = [DialFuncCall ''tcp'' (JoinHostPort ''10.0.0.1'' serverProxyPort)]"
    by (rule Dial_keepalive_failure[OF a b c t]) (simp add: k1 k2)
  have r2: "fst (Dial ?k freshDialer ''p:r:i'' [])
              = Inl (DialError ''failed to set keep-alive'' (String ?i)
                       (ExternalError ''not supported''))
          \<and> filter (\<lambda>e. isForceRefresh e \<or> isClose e)
               (newEvents freshDialer (snd (Dial ?k freshDialer ''p:r:i'' []))) = []
          \<and> filter isDialFunc (newEvents freshDialer (snd (Dial ?k freshDialer ''p:r:i'' [])))
               = [DialFuncCall ''tcp'' (JoinHostPort ''10.0.0.1'' serverProxyPort)]"
    by (rule Dial_keepalive_failure[OF a' b' c' t]) (simp add: k3)
  show ?thesis
    using a b c t k1 k2 k3 r1 r2 by simp
qed






subsection \<open>The dialer: at most one provider per connection name\<close>

lemma constructed_append:
  "constructed n (es @ es') = constructed n es @ constructed n es'"
  by (induction n es rule: constructed.induct) auto

lemma registryOK_cong:
  assumes "instances d' n = instances d n"
      and "constructed n (events d') = constructed n (events d)"
  shows "registryOK n d' = registryOK n d"
  using assms by (simp add: registryOK_def)

lemma locked_keeps_entry:
  "instances d n = Some i \<Longrightarrow> instances (snd (Dialer_instance_locked env d m)) n = Some i"
  by (auto simp: Dialer_instance_locked_def record_events_def split: option.splits sum.splits)

lemma locked_registryOK:
  "registryOK n d \<Longrightarrow> registryOK n (snd (Dialer_instance_locked env d m))"
  by (auto simp: Dialer_instance_locked_def record_events_def registryOK_def constructed_append
           split: option.splits sum.splits)

lemma setKeepAlives_constructed:
  "constructed n (events (snd (setKeepAlives env cfg i c d))) = constructed n (events d)"
  by (simp add: setKeepAlives_def record_events_def constructed_append split: option.splits)

lemma Dial_instances:
  "instances (snd (Dial env d inst opts)) = instances (snd (Dialer_instance_locked env d inst))"
  by (auto simp: Dial_def Let_def Dialer_instance_is_locked Dialer_instance_locked_def
                 setKeepAlives_def record_events_def
           split: prod.splits sum.splits option.splits if_splits)

lemma Dial_constructed:
  "constructed n (events (snd (Dial env d inst opts)))
     = constructed n (events (snd (Dialer_instance_locked env d inst)))"
  by (auto simp: Dial_def Let_def Dialer_instance_is_locked Dialer_instance_locked_def
                 setKeepAlives_def record_events_def constructed_append
           split: prod.splits sum.splits option.splits if_splits)

lemma Dial_registryOK:
  "registryOK n d \<Longrightarrow> registryOK n (snd (Dial env d inst opts))"
  using locked_registryOK[of n d env inst]
  by (simp add: registryOK_def Dial_instances Dial_constructed)

lemma Dial_keeps_entry:
  "instances d n = Some i \<Longrightarrow> instances (snd (Dial env d inst opts)) n = Some i"
  by (simp add: Dial_instances locked_keeps_entry)

lemma Close_registry:
  "instances (snd (instrumentedConn_Close env ic d)) = instances d"
  "constructed n (events (snd (instrumentedConn_Close env ic d))) = constructed n (events d)"
  by (simp_all add: instrumentedConn_Close_def Let_def record_events_def constructed_append
               split: option.splits)

lemma runTask_registry:
  "instances (runTask t d) = instances d"
  "constructed n (events (runTask t d)) = constructed n (events d)"
  by (cases t; simp add: record_events_def constructed_append)+

lemma runTaskAt_registry:
  "instances (runTaskAt k d) = instances d"
  "constructed n (events (runTaskAt k d)) = constructed n (events d)"
  by (simp_all add: runTaskAt_def runTask_registry)

lemma run_registry:
  assumes "run d d'"
  shows "(registryOK n d \<longrightarrow> registryOK n d')
       \<and> (\<forall>i. instances d n = Some i \<longrightarrow> instances d' n = Some i)"
  using assms
proof (induction rule: run.induct)
  case (run_refl d)
  show ?case by simp
next
  case (run_locked d d1 env connName)
  then show ?case by (simp add: locked_registryOK locked_keeps_entry)
next
  case (run_Dial d d1 env inst opts)
  then show ?case by (simp add: Dial_registryOK Dial_keeps_entry)
next
  case (run_Close d d1 env ic)
  then show ?case by (simp add: Close_registry registryOK_def)
next
  case (run_task d d1 k)
  then show ?case by (simp add: runTaskAt_registry registryOK_def)
qed

lemma registryOK_at_most_one: "registryOK n d \<Longrightarrow> length (constructed n (events d)) \<le> 1"
  by (simp add: registryOK_def split: option.splits)

text \<open>
  Claim C8. The registry holds at most one provider per connection name. An entry that
  exists is returned as it is, by the check under the read lock and by the re-check
  under the write lock, without a construction. A construction that fails inserts
  nothing and its error is returned; the next call for the same name constructs again.
  And through every interleaving of locked sections, calls of \<open>Dial\<close> and of \<open>Close\<close> and
  goroutines, an entry once present stays the same, and the providers constructed for a
  name are exactly the entry of the name, so never more than one.
\<close>

theorem registry_at_most_one_provider:
  "(\<forall>i. instances d n = Some i \<longrightarrow>
        Dialer_instance env d n = (Inr i, d) \<and> Dialer_instance_locked env d n = (Inr i, d))
   \<and> (\<forall>e. instances d n = None \<and> NewInstance env n = Inl e \<longrightarrow>
        Dialer_instance env d n = (Inl e, d\<lparr>events := events d @ [NewInstanceCall n (Inl e)]\<rparr>)
        \<and> (\<forall>i. NewInstance env' n = Inr i \<longrightarrow>
              Dialer_instance env' (snd (Dialer_instance env d n)) n
                = (Inr i, d\<lparr>instances := (instances d)(n \<mapsto> i),
                            events := events d @
                              [NewInstanceCall n (Inl e), NewInstanceCall n (Inr i)]\<rparr>)))
   \<and> (\<forall>d'. run d d' \<and> registryOK n d \<longrightarrow>
        registryOK n d' \<and> length (constructed n (events d')) \<le> 1
        \<and> (\<forall>i. instances d n = Some i \<longrightarrow> instances d' n = Some i))"
proof (intro conjI allI impI)
  fix i assume "instances d n = Some i"
  then show "Dialer_instance env d n = (Inr i, d)"
    and "Dialer_instance_locked env d n = (Inr i, d)"
    by (simp_all add: Dialer_instance_def Dialer_instance_locked_def)
next
  fix e assume a: "instances d n = None \<and> NewInstance env n = Inl e"
  then show f: "Dialer_instance env d n
                  = (Inl e, d\<lparr>events := events d @ [NewInstanceCall n (Inl e)]\<rparr>)"
    by (simp add: Dialer_instance_def Dialer_instance_locked_def record_events_def)
  fix i assume "NewInstance env' n = Inr i"
  with a show "Dialer_instance env' (snd (Dialer_instance env d n)) n
                = (Inr i, d\<lparr>instances := (instances d)(n \<mapsto> i),
                            events := events d @
                              [NewInstanceCall n (Inl e), NewInstanceCall n (Inr i)]\<rparr>)"
    by (simp add: f Dialer_instance_def Dialer_instance_locked_def record_events_def)
next
  fix d' assume r: "run d d' \<and> registryOK n d"
  then show ok: "registryOK n d'" using run_registry[of d d' n] by blast
  then show "length (constructed n (events d')) \<le> 1" by (rule registryOK_at_most_one)
  fix i assume "instances d n = Some i"
  with r show "instances d' n = Some i" using run_registry[of d d' n] by blast
qed

lemma registered_eq:
  "registered = freshDialer\<lparr>instances := [''p:r:i'' \<mapsto> db1],
                            events := [NewInstanceCall ''p:r:i'' (Inr db1)]\<rparr>"
  by (simp add: registered_def Dialer_instance_locked_def goodEnv_simps freshDialer_simps
        record_events_def db1_def)

theorem registry_at_most_one_provider_witness:
  "instances registered ''p:r:i'' = Some db1
   \<and> Dialer_instance otherEnv registered ''p:r:i'' = (Inr db1, registered)
   \<and> Dialer_instance_locked otherEnv registered ''p:r:i'' = (Inr db1, registered)
   \<and> instances freshDialer ''p:r:i'' = None
   \<and> NewInstance (failingEnv ''NewInstance'') ''p:r:i'' = Inl (ExternalError ''no admin client'')
   \<and> Dialer_instance (failingEnv ''NewInstance'') freshDialer ''p:r:i''
       = (Inl (ExternalError ''no admin client''),
          freshDialer\<lparr>events := events freshDialer @
             [NewInstanceCall ''p:r:i'' (Inl (ExternalError ''no admin client''))]\<rparr>)
   \<and> NewInstance goodEnv ''p:r:i'' = Inr db1
   \<and> Dialer_instance goodEnv
        (snd (Dialer_instance (failingEnv ''NewInstance'') freshDialer ''p:r:i'')) ''p:r:i''
       = (Inr db1,
          freshDialer\<lparr>instances := (instances freshDialer)(''p:r:i'' \<mapsto> db1),
                      events := events freshDialer @
                        [NewInstanceCall ''p:r:i'' (Inl (ExternalError ''no admin client'')),
                         NewInstanceCall ''p:r:i'' (Inr db1)]\<rparr>)
   \<and> run registered (snd (Dial otherEnv registered ''p:r:i'' []))
   \<and> registryOK ''p:r:i'' registered
   \<and> registryOK ''p:r:i'' (snd (Dial otherEnv registered ''p:r:i'' []))
   \<and> length (constructed ''p:r:i'' (events (snd (Dial otherEnv registered ''p:r:i'' [])))) \<le> 1
   \<and> instances (snd (Dial otherEnv registered ''p:r:i'' [])) ''p:r:i'' = Some db1"
proof -
  let ?n = "''p:r:i''"
  let ?bad = "failingEnv ''NewInstance''"
  let ?d' = "snd (Dial otherEnv registered ?n [])"
  have a: "instances registered ?n = Some db1"
    by (simp add: registered_eq)
  have b: "instances freshDialer ?n = None \<and> NewInstance ?bad ?n = Inl (ExternalError ''no admin client'')"
    by (simp add: freshDialer_simps failingEnv_simps)
  have c: "NewInstance goodEnv ?n = Inr db1"
    by (simp add: goodEnv_simps db1_def)
  have r: "run registered ?d'"
    by (rule run_Dial) (rule run_refl)
  have ok: "registryOK ?n registered"
    by (simp add: registered_eq registryOK_def)
  note T1 = registry_at_most_one_provider[of registered ?n otherEnv goodEnv]
  note T2 = registry_at_most_one_provider[of freshDialer ?n ?bad goodEnv]
  have p1: "Dialer_instance otherEnv registered ?n = (Inr db1, registered)
          \<and> Dialer_instance_locked otherEnv registered ?n = (Inr db1, registered)"
    using T1 a by blast
  have p2: "Dialer_instance ?bad freshDialer ?n
       = (Inl (ExternalError ''no admin client''),
          freshDialer\<lparr>events := events freshDialer @
             [NewInstanceCall ?n (Inl (ExternalError ''no admin client''))]\<rparr>)"
    using T2 b by blast
  have p3: "Dialer_instance goodEnv (snd (Dialer_instance ?bad freshDialer ?n)) ?n
       = (Inr db1,
          freshDialer\<lparr>instances := (instances freshDialer)(?n \<mapsto> db1),
                      events := events freshDialer @
                        [NewInstanceCall ?n (Inl (ExternalError ''no admin client'')),
                         NewInstanceCall ?n (Inr db1)]\<rparr>)"
    using T2 b c by blast
  have p4: "registryOK ?n ?d' \<and> length (constructed ?n (events ?d')) \<le> 1
          \<and> instances ?d' ?n = Some db1"
    using T1 r ok a by blast
  show ?thesis using a b c r ok p1 p2 p3 p4 by blast
qed

end
